theory Spec2Isabelle
  imports Complex_Main "HOL-Library.FSet" "HOL-Library.Multiset"
begin

section \<open>The backup service factory\<close>

text \<open>
  \<^verbatim>\<open>src/electron/walletBackup/serviceFactory.js\<close>. The three provider modules
  (\<^verbatim>\<open>./gdrive\<close>, \<^verbatim>\<open>./dropbox\<close>, \<^verbatim>\<open>./local\<close>) are imported, not defined here, so the
  three getters are parameters of the model. The \<^verbatim>\<open>switch\<close> compares with strict
  equality and its \<^verbatim>\<open>default\<close> branch throws: the thrown \<^verbatim>\<open>Error\<close> is the left
  summand of the result.
\<close>

definition GOOGLE_DRIVE :: string where
  "GOOGLE_DRIVE = ''gdrive''"

definition DROPBOX :: string where
  "DROPBOX = ''dropbox''"

definition LOCAL :: string where
  "LOCAL = ''local''"

datatype js_error = Error string

definition getBackupService ::
  "(unit \<Rightarrow> 'svc) \<Rightarrow> (unit \<Rightarrow> 'svc) \<Rightarrow> (unit \<Rightarrow> 'svc) \<Rightarrow> string \<Rightarrow> js_error + 'svc" where
  "getBackupService getGDrive getDropbox getLocal provider =
     (if provider = GOOGLE_DRIVE then Inr (getGDrive ())
      else if provider = DROPBOX then Inr (getDropbox ())
      else if provider = LOCAL then Inr (getLocal ())
      else Inl (Error ''not implemented''))"

section \<open>Activity items\<close>

text \<open>
  \<^verbatim>\<open>src/renderer/reducers/activity.js\<close>. An activity item is a plain JavaScript object:
  a transaction, an invoice or a payment, told apart by its \<^verbatim>\<open>type\<close> string. The
  record below has the fields this module reads. A text field that an object may lack
  is an option (\<open>None\<close> is the absent field); the three time fields are whole unix
  seconds; a flag that is absent reads as \<open>False\<close>, which is how every test of a flag
  in the source treats \<^verbatim>\<open>undefined\<close>.
\<close>

record entry =
  type :: "string option"
  time_stamp :: int
  settle_date :: int
  creation_date :: int
  settled :: bool
  isExpired :: bool
  isReceived :: bool
  isFunding :: bool
  isClosing :: bool
  isPending :: bool
  sending :: bool
  memo :: "string option"
  tx_hash :: "string option"
  payment_hash :: "string option"
  payment_preimage :: "string option"
  payment_request :: "string option"
  dest_node_pubkey :: "string option"
  dest_node_alias :: "string option"
  dest_addresses :: "string list option"

text \<open>
  The normalizer \<^verbatim>\<open>addDate\<close> returns \<^verbatim>\<open>{ ...entry, date, timestamp }\<close>: the same object
  with two more fields. \<^verbatim>\<open>timestamp\<close> is what \<^verbatim>\<open>returnTimestamp\<close> gave, a number or
  \<^verbatim>\<open>null\<close> (\<open>None\<close>).
\<close>

record activity = entry +
  date :: string
  timestamp :: "int option"

subsection \<open>JavaScript primitives the module relies on\<close>

text \<open>In arithmetic \<^verbatim>\<open>null\<close> converts to \<open>0\<close>.\<close>

definition toNumber :: "int option \<Rightarrow> int" where
  "toNumber v = (case v of None \<Rightarrow> 0 | Some n \<Rightarrow> n)"

text \<open>
  \<^verbatim>\<open>Math.round(a / b)\<close> for whole \<open>a\<close> and positive whole \<open>b\<close>: the nearest
  integer, a tie going up, that is \<open>\<lfloor>a / b + 1/2\<rfloor>\<close>, computed on integers. The
  module uses it in one test only, \<^verbatim>\<open>Math.round((t2 - t1) / 86400) >= 1\<close> on
  timestamps in whole seconds. In double precision that test has the same outcome as
  here: the quotient is exactly \<open>1/2\<close> at a difference of 43200, and division is
  monotone, so the computed quotient is at least \<open>1/2\<close> from 43200 on and below it
  before.
\<close>

definition Math_round_div :: "int \<Rightarrow> int \<Rightarrow> int" where
  "Math_round_div a b = (2 * a + b) div (2 * b)"

text \<open>\<^verbatim>\<open>String(n)\<close> for an integer: its decimal digits, a minus sign first if negative.\<close>

fun digits :: "nat \<Rightarrow> string" where
  "digits n =
     (if n < 10 then [char_of (48 + n)]
      else digits (n div 10) @ [char_of (48 + n mod 10)])"

definition String_of_int :: "int \<Rightarrow> string" where
  "String_of_int i = (if i < 0 then CHR ''-'' # digits (nat (- i)) else digits (nat i))"

text \<open>
  A string stands for the text of a JavaScript string, written as the bytes of its
  UTF-8 form (for ASCII text, its characters); on well-formed text \<^verbatim>\<open>includes\<close> finds
  the same occurrences in either form.

  \<^verbatim>\<open>String.prototype.toLowerCase\<close> is the Unicode case conversion of the platform: it
  is not a map over single characters (a capital sigma becomes one of two small letters
  by its position in the word, some letters become two). It is not modelled as a
  function of this theory but taken as a parameter \<open>toLowerCase\<close> of the search
  filter, and of what calls it. What it does on ASCII text is known: \<open>A\<close> to \<open>Z\<close>
  become \<open>a\<close> to \<open>z\<close>, every other character stays.
\<close>

definition asciiLowerChar :: "char \<Rightarrow> char" where
  "asciiLowerChar c =
     (let n = (of_char c :: nat) in if 65 \<le> n \<and> n \<le> 90 then char_of (n + 32) else c)"


text \<open>\<^verbatim>\<open>s.includes(q)\<close>: \<open>q\<close> occurs in \<open>s\<close> at some position.\<close>

fun startsWith :: "string \<Rightarrow> string \<Rightarrow> bool" where
  "startsWith s [] = True"
| "startsWith [] (q # qs) = False"
| "startsWith (c # cs) (q # qs) = (c = q \<and> startsWith cs qs)"

fun str_includes :: "string \<Rightarrow> string \<Rightarrow> bool" where
  "str_includes [] q = (q = [])"
| "str_includes (c # cs) q = (startsWith (c # cs) q \<or> str_includes cs q)"

text \<open>
  \<^verbatim>\<open>Array.prototype.sort(cmp)\<close>: a stable sort; \<open>a\<close> stays before \<open>b\<close> unless
  \<open>cmp a b > 0\<close>.
\<close>

fun insort_cmp :: "('a \<Rightarrow> 'a \<Rightarrow> int) \<Rightarrow> 'a \<Rightarrow> 'a list \<Rightarrow> 'a list" where
  "insort_cmp cmp x [] = [x]"
| "insort_cmp cmp x (y # ys) =
     (if cmp x y \<le> 0 then x # y # ys else y # insort_cmp cmp x ys)"

definition js_sort :: "('a \<Rightarrow> 'a \<Rightarrow> int) \<Rightarrow> 'a list \<Rightarrow> 'a list" where
  "js_sort cmp xs = foldr (insort_cmp cmp) xs []"

text \<open>
  \<^verbatim>\<open>new Date(ms)\<close> read through \<^verbatim>\<open>getDate()\<close>, \<^verbatim>\<open>getMonth()\<close> and \<^verbatim>\<open>getFullYear()\<close>.
  These are fields of the local time zone, which is the machine's and not the
  program's: the conversion is a parameter \<open>localTime\<close> of the normalizer, from
  milliseconds since the epoch to the three fields.
\<close>

record js_date =
  getDate :: nat
  getMonth :: nat
  getFullYear :: int

text \<open>One such conversion, the UTC time zone (the proleptic Gregorian calendar).\<close>

definition utcTime :: "int \<Rightarrow> js_date" where
  "utcTime ms =
     (let z = ms div 86400000 + 719468;
          era = z div 146097;
          doe = z - era * 146097;
          yoe = (doe - doe div 1460 + doe div 36524 - doe div 146096) div 365;
          doy = doe - (365 * yoe + yoe div 4 - yoe div 100);
          mp = (5 * doy + 2) div 153;
          d = doy - (153 * mp + 2) div 5 + 1;
          m = (if mp < 10 then mp + 3 else mp - 9);
          y = yoe + era * 400 + (if m \<le> 2 then 1 else 0)
      in \<lparr>getDate = nat d, getMonth = nat (m - 1), getFullYear = y\<rparr>)"

subsection \<open>Helpers\<close>

definition months :: "string list" where
  "months = [''Jan'', ''Feb'', ''Mar'', ''Apr'', ''May'', ''Jun'',
             ''Jul'', ''Aug'', ''Sep'', ''Oct'', ''Nov'', ''Dec'']"

text \<open>\<^verbatim>\<open>item[prop]\<close> for a property name: the field of that name, if the object has it.\<close>

definition getProp :: "activity \<Rightarrow> string \<Rightarrow> string option" where
  "getProp item prop =
     (if prop = ''date'' then Some (date item)
      else if prop = ''type'' then type item
      else if prop = ''memo'' then memo item
      else if prop = ''tx_hash'' then tx_hash item
      else if prop = ''payment_hash'' then payment_hash item
      else if prop = ''payment_preimage'' then payment_preimage item
      else if prop = ''payment_request'' then payment_request item
      else if prop = ''dest_node_pubkey'' then dest_node_pubkey item
      else if prop = ''dest_node_alias'' then dest_node_alias item
      else None)"

text \<open>
  \<^verbatim>\<open>propMatches\<close>: \<^verbatim>\<open>item[prop] && item[prop].toLowerCase().includes(text.toLowerCase())\<close>.
  An absent field and the empty string are both falsy.
\<close>

definition propMatches ::
  "(string \<Rightarrow> string) \<Rightarrow> activity \<Rightarrow> string \<Rightarrow> string \<Rightarrow> bool" where
  "propMatches toLowerCase item searchTextSelector prop =
     (case getProp item prop of
        None \<Rightarrow> False
      | Some v \<Rightarrow> v \<noteq> [] \<and> str_includes (toLowerCase v) (toLowerCase searchTextSelector))"

text \<open>\<^verbatim>\<open>returnTimestamp\<close>: a \<^verbatim>\<open>switch\<close> on the type, \<^verbatim>\<open>null\<close> by default.\<close>

definition returnTimestamp :: "'a entry_scheme \<Rightarrow> int option" where
  "returnTimestamp activity =
     (if type activity = Some ''transaction'' then Some (time_stamp activity)
      else if type activity = Some ''invoice'' then
        Some (if settled activity then settle_date activity else creation_date activity)
      else if type activity = Some ''payment'' then Some (creation_date activity)
      else None)"

subsection \<open>The grouper\<close>

text \<open>
  An element of the grouped sequence: a date header \<^verbatim>\<open>{ title: ... }\<close> or an item.
\<close>

datatype grouped = Title string | Item activity

definition daysBetween :: "int \<Rightarrow> int \<Rightarrow> int" where
  "daysBetween t1 t2 = Math_round_div (t2 - t1) 86400"

text \<open>The comparator given to \<^verbatim>\<open>sort\<close>: \<^verbatim>\<open>(a, b) => b.timestamp - a.timestamp\<close>.\<close>

definition byTimestampDesc :: "activity \<Rightarrow> activity \<Rightarrow> int" where
  "byTimestampDesc a b = toNumber (timestamp b) - toNumber (timestamp a)"

text \<open>
  The body of the \<^verbatim>\<open>reduce\<close>. \<open>prev\<close> is the last element pushed so far, absent when
  nothing was pushed. Were it a date header, its \<^verbatim>\<open>timestamp\<close> would be \<^verbatim>\<open>undefined\<close>,
  the day count \<^verbatim>\<open>NaN\<close> and the test \<^verbatim>\<open>days >= 1\<close> false.
\<close>

definition groupStep :: "grouped list \<Rightarrow> activity \<Rightarrow> grouped list" where
  "groupStep acc next =
     (case (if acc = [] then None else Some (last acc)) of
        Some prev \<Rightarrow>
          (case prev of
             Item p \<Rightarrow>
               (let days = daysBetween (toNumber (timestamp next)) (toNumber (timestamp p))
                in if days \<ge> 1 then acc @ [Title (date next)] @ [Item next]
                   else acc @ [Item next])
           | Title t \<Rightarrow> acc @ [Item next])
      | None \<Rightarrow> acc @ [Title (date next)] @ [Item next])"

definition groupActivity :: "activity list \<Rightarrow> grouped list" where
  "groupActivity data = foldl groupStep [] (js_sort byTimestampDesc data)"

subsection \<open>The search filter\<close>

definition searchProps :: "string list" where
  "searchProps = [''date'', ''type'', ''memo'', ''tx_hash'', ''payment_hash'',
                  ''payment_preimage'', ''payment_request'', ''dest_node_pubkey'',
                  ''dest_node_alias'']"

text \<open>
  The predicate given to \<^verbatim>\<open>data.filter\<close>. \<^verbatim>\<open>find\<close> returns the first address that
  includes the text, itself tested for truthiness, or \<^verbatim>\<open>undefined\<close>.
\<close>

definition searchMatches :: "(string \<Rightarrow> string) \<Rightarrow> string \<Rightarrow> activity \<Rightarrow> bool" where
  "searchMatches toLowerCase searchTextSelector item =
     (let hasPropMatch = list_ex (propMatches toLowerCase item searchTextSelector) searchProps;
          hasAddressMatch =
            (case dest_addresses item of
               None \<Rightarrow> False
             | Some addrs \<Rightarrow>
                 (case find (\<lambda>addr. str_includes addr searchTextSelector) addrs of
                    None \<Rightarrow> False
                  | Some addr \<Rightarrow> addr \<noteq> []))
      in hasPropMatch \<or> hasAddressMatch)"

text \<open>The search text is a string or \<^verbatim>\<open>null\<close>; \<^verbatim>\<open>null\<close> and the empty string are falsy.\<close>

definition applySearch ::
  "(string \<Rightarrow> string) \<Rightarrow> activity list \<Rightarrow> string option \<Rightarrow> activity list" where
  "applySearch toLowerCase data searchTextSelector =
     (case searchTextSelector of
        None \<Rightarrow> data
      | Some q \<Rightarrow> if q = [] then data else filter (searchMatches toLowerCase q) data)"

definition prepareData ::
  "(string \<Rightarrow> string) \<Rightarrow> activity list \<Rightarrow> string option \<Rightarrow> grouped list" where
  "prepareData toLowerCase data text = groupActivity (applySearch toLowerCase data text)"

subsection \<open>The normalizer and the category selectors\<close>

text \<open>
  The category selectors read their pools through the selectors of the sibling
  reducers (\<^verbatim>\<open>paymentSelectors.payments\<close>, \<^verbatim>\<open>paymentSelectors.paymentsSending\<close>,
  \<^verbatim>\<open>invoiceSelectors.invoices\<close>, \<^verbatim>\<open>transactionsSelectors.transactions\<close>,
  \<^verbatim>\<open>transactionsSelectors.transactionsSending\<close>), which are not part of this module:
  the pools are arguments. \<^verbatim>\<open>[...a, ...b].map(addDate)\<close> is the map over the
  concatenation.
\<close>

definition addDate :: "(int \<Rightarrow> js_date) \<Rightarrow> entry \<Rightarrow> activity" where
  "addDate localTime e =
     (let ts = returnTimestamp e;
          d = localTime (toNumber ts * 1000);
          day = getDate d;
          month = (if getMonth d < length months then months ! getMonth d else ''undefined'')
      in entry.extend e
           (activity.fields
              (month @ '' '' @ String_of_int (int day) @ '', '' @ String_of_int (getFullYear d))
              ts))"

definition sentActivityRaw :: "(int \<Rightarrow> js_date) \<Rightarrow> entry list \<Rightarrow> entry list \<Rightarrow> activity list" where
  "sentActivityRaw localTime payments transactions =
     map (addDate localTime)
       (payments @
        filter (\<lambda>transaction.
            \<not> isReceived transaction \<and> \<not> isFunding transaction \<and>
            \<not> isClosing transaction \<and> \<not> isPending transaction) transactions)"

definition receivedActivityRaw :: "(int \<Rightarrow> js_date) \<Rightarrow> entry list \<Rightarrow> entry list \<Rightarrow> activity list" where
  "receivedActivityRaw localTime invoices transactions =
     map (addDate localTime)
       (filter (\<lambda>invoice. settled invoice) invoices @
        filter (\<lambda>transaction.
            isReceived transaction \<and> \<not> isFunding transaction \<and>
            \<not> isClosing transaction \<and> \<not> isPending transaction) transactions)"

definition pendingActivityRaw ::
  "(int \<Rightarrow> js_date) \<Rightarrow> entry list \<Rightarrow> entry list \<Rightarrow> entry list \<Rightarrow> entry list \<Rightarrow> activity list" where
  "pendingActivityRaw localTime paymentsSending transactionsSending transactions invoices =
     map (addDate localTime)
       (paymentsSending @ transactionsSending @
        filter (\<lambda>transaction. isPending transaction) transactions @
        filter (\<lambda>invoice. \<not> settled invoice \<and> \<not> isExpired invoice) invoices)"

definition expiredActivityRaw :: "(int \<Rightarrow> js_date) \<Rightarrow> entry list \<Rightarrow> activity list" where
  "expiredActivityRaw localTime invoices =
     map (addDate localTime) (filter (\<lambda>invoice. \<not> settled invoice \<and> isExpired invoice) invoices)"

definition internalActivityRaw :: "(int \<Rightarrow> js_date) \<Rightarrow> entry list \<Rightarrow> activity list" where
  "internalActivityRaw localTime transactions =
     map (addDate localTime)
       (filter (\<lambda>transaction.
            isFunding transaction \<or> (isClosing transaction \<and> \<not> isPending transaction))
          transactions)"

subsection \<open>The filter set and the current activity\<close>

text \<open>
  The filter is a JavaScript \<^verbatim>\<open>Set\<close> of category keys, always finite; only \<^verbatim>\<open>has\<close>,
  \<^verbatim>\<open>size\<close>, \<^verbatim>\<open>add\<close> and \<^verbatim>\<open>delete\<close> are used on it, so its insertion order is never
  observed.
\<close>

definition defaultFilter :: "string fset" where
  "defaultFilter = {|''SENT_ACTIVITY'', ''RECEIVED_ACTIVITY'', ''PENDING_ACTIVITY'',
                     ''EXPIRED_ACTIVITY'', ''INTERNAL_ACTIVITY''|}"

definition currentActivity ::
  "(string \<Rightarrow> string) \<Rightarrow> string option \<Rightarrow> string fset \<Rightarrow> activity list \<Rightarrow> activity list \<Rightarrow>
   activity list \<Rightarrow> activity list \<Rightarrow> activity list \<Rightarrow> grouped list" where
  "currentActivity toLowerCase text filters sent received pending expired internal =
     (let result0 = [];
          curFilter = (if fcard filters \<noteq> 0 then filters else defaultFilter);
          result1 = (if ''SENT_ACTIVITY'' |\<in>| curFilter then result0 @ sent else result0);
          result2 = (if ''RECEIVED_ACTIVITY'' |\<in>| curFilter then result1 @ received else result1);
          result3 = (if ''PENDING_ACTIVITY'' |\<in>| curFilter then result2 @ pending else result2);
          result4 = (if ''EXPIRED_ACTIVITY'' |\<in>| curFilter then result3 @ expired else result3);
          result5 = (if ''INTERNAL_ACTIVITY'' |\<in>| curFilter then result4 @ internal else result4)
      in prepareData toLowerCase result5 text)"

subsection \<open>The state container and its filter handlers\<close>

record modal_state =
  itemType :: "string option"
  itemId :: "string option"

record activity_state =
  filter_set :: "string fset"
  filters :: "string list"
  modal :: modal_state
  errorDialogDetails :: "string option"
  searchText :: "string option"
  isActivityLoading :: bool
  activityLoadingError :: "string option"
  hasNextPage :: bool

definition initialState :: activity_state where
  "initialState =
     \<lparr>filter_set = defaultFilter,
      filters = [''SENT_ACTIVITY'', ''RECEIVED_ACTIVITY'', ''PENDING_ACTIVITY'',
                 ''EXPIRED_ACTIVITY'', ''INTERNAL_ACTIVITY''],
      modal = \<lparr>itemType = None, itemId = None\<rparr>,
      errorDialogDetails = None,
      searchText = None,
      isActivityLoading = False,
      activityLoadingError = None,
      hasNextPage = True\<rparr>"

text \<open>
  The handlers update the state in place; here they return the updated state. The body
  of the \<^verbatim>\<open>forEach\<close> of \<^verbatim>\<open>CHANGE_FILTER\<close> is \<open>toggleKey\<close>.
\<close>

definition toggleKey :: "string \<Rightarrow> string fset \<Rightarrow> string fset" where
  "toggleKey item flt = (if item |\<in>| flt then flt |-| {|item|} else finsert item flt)"

definition CHANGE_FILTER :: "activity_state \<Rightarrow> string list \<Rightarrow> activity_state" where
  "CHANGE_FILTER state filterList =
     state\<lparr>filter_set := fold toggleKey filterList (filter_set state)\<rparr>"

definition ADD_FILTER :: "activity_state \<Rightarrow> string list \<Rightarrow> activity_state" where
  "ADD_FILTER state filterList =
     (if fcard (filter_set state) > 0
      then state\<lparr>filter_set := fold finsert filterList (filter_set state)\<rparr>
      else state)"

subsection \<open>Notions used to state the properties\<close>

text \<open>The data items of a grouped sequence, its date headers removed.\<close>

primrec dataItems :: "grouped list \<Rightarrow> activity list" where
  "dataItems [] = []"
| "dataItems (g # gs) = (case g of Item a \<Rightarrow> a # dataItems gs | Title t \<Rightarrow> dataItems gs)"








text \<open>
  The Sent category as it would be if the payments were tested for being in flight
  (their \<^verbatim>\<open>sending\<close> flag) before they are taken in.
\<close>

definition sentOfNonPending ::
  "(int \<Rightarrow> js_date) \<Rightarrow> entry list \<Rightarrow> entry list \<Rightarrow> activity list" where
  "sentOfNonPending localTime payments transactions =
     map (addDate localTime)
       (filter (\<lambda>payment. \<not> sending payment) payments @
        filter (\<lambda>transaction.
            \<not> isReceived transaction \<and> \<not> isFunding transaction \<and>
            \<not> isClosing transaction \<and> \<not> isPending transaction) transactions)"

subsection \<open>Example data\<close>

text \<open>
  The capital sigma (U+03A3), the small sigma (U+03C3) and the small final sigma
  (U+03C2), in UTF-8.
\<close>

definition capital_sigma :: string where
  "capital_sigma = [CHR 0xCE, CHR 0xA3]"

definition small_sigma :: string where
  "small_sigma = [CHR 0xCF, CHR 0x83]"

definition final_sigma :: string where
  "final_sigma = [CHR 0xCF, CHR 0x82]"

text \<open>
  \<^verbatim>\<open>toLowerCase\<close> as it acts on ASCII text, and on text of ASCII letters and digits
  with capital sigmas among them, for use in the examples: an ASCII capital becomes its
  small letter; a capital sigma becomes the final sigma when a letter stands before it and
  none after it (\<open>A\<close> and a capital sigma become \<open>a\<close> and a final sigma), and the
  small sigma otherwise (\<open>A\<close>, a capital sigma and \<open>B\<close> become \<open>a\<close>, a small sigma and
  \<open>b\<close>). The flag says whether a letter stands before the text.
\<close>

definition isLetter :: "char \<Rightarrow> bool" where
  "isLetter c \<longleftrightarrow>
     (65 \<le> (of_char c :: nat) \<and> (of_char c :: nat) \<le> 90) \<or>
     (97 \<le> (of_char c :: nat) \<and> (of_char c :: nat) \<le> 122)"

definition letterFirst :: "string \<Rightarrow> bool" where
  "letterFirst s = (case s of [] \<Rightarrow> False | c # cs \<Rightarrow> isLetter c \<or> startsWith s capital_sigma)"

fun lowerFrom :: "bool \<Rightarrow> string \<Rightarrow> string" where
  "lowerFrom afterLetter [] = []"
| "lowerFrom afterLetter [c] = [asciiLowerChar c]"
| "lowerFrom afterLetter (c # d # cs) =
     (if [c, d] = capital_sigma
      then (if afterLetter \<and> \<not> letterFirst cs then final_sigma else small_sigma)
           @ lowerFrom True cs
      else asciiLowerChar c # lowerFrom (isLetter c) (d # cs))"

definition sampleLowerCase :: "string \<Rightarrow> string" where
  "sampleLowerCase s = lowerFrom False s"

definition blankEntry :: entry where
  "blankEntry =
     \<lparr>type = None, time_stamp = 0, settle_date = 0, creation_date = 0, settled = False,
      isExpired = False, isReceived = False, isFunding = False, isClosing = False,
      isPending = False, sending = False, memo = None, tx_hash = None, payment_hash = None,
      payment_preimage = None, payment_request = None, dest_node_pubkey = None,
      dest_node_alias = None, dest_addresses = None\<rparr>"

definition examplePayment :: entry where
  "examplePayment = blankEntry\<lparr>type := Some ''payment'', creation_date := 100,
     payment_hash := Some ''a''\<rparr>"

definition sendingPayment :: entry where
  "sendingPayment = examplePayment\<lparr>sending := True\<rparr>"

definition settledInvoice :: entry where
  "settledInvoice = blankEntry\<lparr>type := Some ''invoice'', settled := True,
     settle_date := 200, creation_date := 100\<rparr>"

definition openInvoice :: entry where
  "openInvoice = settledInvoice\<lparr>settled := False\<rparr>"

definition transactionAt :: "int \<Rightarrow> entry" where
  "transactionAt t = blankEntry\<lparr>type := Some ''transaction'', time_stamp := t\<rparr>"

definition receivedTransaction :: entry where
  "receivedTransaction = (transactionAt 50)\<lparr>isReceived := True\<rparr>"

definition itemAt :: "int \<Rightarrow> activity" where
  "itemAt t = addDate utcTime (transactionAt t)"



section \<open>Properties of the JavaScript primitives\<close>

text \<open>
  The integer formula is the rounding rule of \<^verbatim>\<open>Math.round\<close>, \<open>\<lfloor>x + 1/2\<rfloor>\<close>, at
  \<open>x = a / b\<close>.
\<close>

lemma Math_round_div_floor:
  "0 < b \<Longrightarrow> Math_round_div a b = \<lfloor>real_of_int a / real_of_int b + 1 / 2\<rfloor>"
proof -
  assume b: "0 < b"
  have "real_of_int a / real_of_int b + 1 / 2 = real_of_int (2 * a + b) / real_of_int (2 * b)"
    using b by (simp add: field_simps)
  then show ?thesis
    by (simp only: Math_round_div_def floor_divide_of_int_eq)
qed

text \<open>A difference rounds to one day or more exactly from half a day on.\<close>

lemma Math_round_div_ge_1: "1 \<le> Math_round_div d 86400 \<longleftrightarrow> 43200 \<le> d"
proof -
  have one: "\<And>x::int. 1 \<le> x \<longleftrightarrow> 0 < x"
    by linarith
  have "Math_round_div d 86400 = (2 * d + 86400) div 172800"
    by (simp add: Math_round_div_def)
  moreover have "0 < (2 * d + 86400) div 172800 \<longleftrightarrow> 172800 \<le> 2 * d + 86400"
    by (rule pos_imp_zdiv_pos_iff) simp
  moreover have "172800 \<le> 2 * d + 86400 \<longleftrightarrow> 43200 \<le> d"
    by linarith
  ultimately show ?thesis
    by (simp only: one)
qed

lemma daysBetween_ge_1: "daysBetween t1 t2 \<ge> 1 \<longleftrightarrow> t2 - t1 \<ge> 43200"
  by (simp only: daysBetween_def Math_round_div_ge_1)

text \<open>The sort by the comparator is the library's stable sort on the negated timestamp.\<close>

lemma insort_cmp_key:
  "insort_cmp byTimestampDesc x ys = insort_key (\<lambda>a. - toNumber (timestamp a)) x ys"
  by (induction ys) (auto simp add: byTimestampDesc_def)

lemma js_sort_key:
  "js_sort byTimestampDesc xs = sort_key (\<lambda>a. - toNumber (timestamp a)) xs"
  by (induction xs) (simp_all add: js_sort_def insort_cmp_key)













text \<open>The size of a filter set is positive exactly when the set is not empty.\<close>

lemma fcard_pos_iff: "fcard A > 0 \<longleftrightarrow> A \<noteq> {||}"
  by (metis fcard_0_eq gr0I less_numeral_extra(3))

lemma fold_finsert: "fold finsert ks A = A |\<union>| fset_of_list ks"
  by (induction ks arbitrary: A) auto

section \<open>The normalizer\<close>

lemma timestamp_addDate: "timestamp (addDate localTime e) = returnTimestamp e"
  by (simp add: addDate_def Let_def entry.defs activity.defs)

lemma truncate_addDate: "entry.truncate (addDate localTime e) = e"
  by (simp add: addDate_def Let_def entry.defs activity.defs)

text \<open>
  Claim C8. The normalizer selects the numeric timestamp by variant: for a transaction
  it is \<^verbatim>\<open>time_stamp\<close>; for an invoice it is \<^verbatim>\<open>settle_date\<close> when the invoice is
  settled and \<^verbatim>\<open>creation_date\<close> otherwise; for a payment it is \<^verbatim>\<open>creation_date\<close>.
\<close>

theorem addDate_timestamp_by_variant:
  "(type e = Some ''transaction'' \<longrightarrow> timestamp (addDate localTime e) = Some (time_stamp e)) \<and>
   (type e = Some ''invoice'' \<and> settled e \<longrightarrow>
      timestamp (addDate localTime e) = Some (settle_date e)) \<and>
   (type e = Some ''invoice'' \<and> \<not> settled e \<longrightarrow>
      timestamp (addDate localTime e) = Some (creation_date e)) \<and>
   (type e = Some ''payment'' \<longrightarrow> timestamp (addDate localTime e) = Some (creation_date e))"
  by (simp add: timestamp_addDate returnTimestamp_def)

text \<open>
  The four cases of C8 on a transaction, a settled invoice, an open invoice and a
  payment.
\<close>

theorem addDate_timestamp_by_variant_witness:
  "timestamp (addDate utcTime (transactionAt 1609804800)) = Some 1609804800 \<and>
   timestamp (addDate utcTime settledInvoice) = Some 200 \<and>
   timestamp (addDate utcTime openInvoice) = Some 100 \<and>
   timestamp (addDate utcTime examplePayment) = Some 100"
  using addDate_timestamp_by_variant [of "transactionAt 1609804800" utcTime]
    addDate_timestamp_by_variant [of settledInvoice utcTime]
    addDate_timestamp_by_variant [of openInvoice utcTime]
    addDate_timestamp_by_variant [of examplePayment utcTime]
  by (simp add: transactionAt_def settledInvoice_def openInvoice_def examplePayment_def
      blankEntry_def)

section \<open>The grouper\<close>

lemma dataItems_append: "dataItems (xs @ ys) = dataItems xs @ dataItems ys"
  by (induction xs) (auto split: grouped.split)

lemma dataItems_groupStep: "dataItems (groupStep acc x) = dataItems acc @ [x]"
  by (simp add: groupStep_def Let_def dataItems_append split: grouped.split)

lemma dataItems_foldl: "dataItems (foldl groupStep acc xs) = dataItems acc @ xs"
  by (induction xs arbitrary: acc) (simp_all add: dataItems_groupStep)

text \<open>With the date headers removed, the grouper's result is the sorted input.\<close>

lemma dataItems_groupActivity: "dataItems (groupActivity data) = js_sort byTimestampDesc data"
  by (simp add: groupActivity_def dataItems_foldl)

text \<open>
  Claim C3. For every list of normalized activity items, the sequence returned by the
  grouper, after removing the separator entries, has its data items ordered by
  timestamp in non-increasing order, and contains exactly the items of the input list
  (the same items, each as often as in the input).
\<close>

theorem groupActivity_items:
  "sorted_wrt (\<lambda>a b. toNumber (timestamp a) \<ge> toNumber (timestamp b))
     (dataItems (groupActivity data)) \<and>
   mset (dataItems (groupActivity data)) = mset data"
proof
  have "sorted (map (\<lambda>a. - toNumber (timestamp a)) (dataItems (groupActivity data)))"
    by (simp only: dataItems_groupActivity js_sort_key sorted_sort_key)
  then show "sorted_wrt (\<lambda>a b. toNumber (timestamp a) \<ge> toNumber (timestamp b))
     (dataItems (groupActivity data))"
    by (simp add: sorted_map)
  show "mset (dataItems (groupActivity data)) = mset data"
    by (simp only: dataItems_groupActivity js_sort_key mset_sort)
qed

text \<open>C3 on three items given out of order, two of them within a day of each other.\<close>

theorem groupActivity_items_witness:
  "sorted_wrt (\<lambda>a b. toNumber (timestamp a) \<ge> toNumber (timestamp b))
     (dataItems (groupActivity [itemAt 0, itemAt 86400, itemAt 43201])) \<and>
   mset (dataItems (groupActivity [itemAt 0, itemAt 86400, itemAt 43201]))
     = mset [itemAt 0, itemAt 86400, itemAt 43201] \<and>
   dataItems (groupActivity [itemAt 0, itemAt 86400, itemAt 43201])
     = [itemAt 86400, itemAt 43201, itemAt 0]"
proof -
  have "dataItems (groupActivity [itemAt 0, itemAt 86400, itemAt 43201])
     = [itemAt 86400, itemAt 43201, itemAt 0]"
    by code_simp
  with groupActivity_items [of "[itemAt 0, itemAt 86400, itemAt 43201]"] show ?thesis
    by blast
qed

text \<open>
  What one step of the pass appends for an item, given the data item before it: a date
  header and the item, or the item alone.
\<close>

lemma groupStep_Nil: "groupStep [] x = [Title (date x), Item x]"
  by (simp add: groupStep_def)

lemma groupStep_Item:
  "groupStep (acc @ [Item p]) x =
     (acc @ [Item p]) @
     (if toNumber (timestamp p) - toNumber (timestamp x) \<ge> 43200
      then [Title (date x), Item x] else [Item x])"
  by (simp add: groupStep_def daysBetween_ge_1 Let_def)

lemma foldl_groupStep_Item:
  "foldl groupStep (acc @ [Item p]) xs =
     (acc @ [Item p]) @
     concat (map (\<lambda>(prev, x).
          if (case prev of None \<Rightarrow> True
              | Some p \<Rightarrow> toNumber (timestamp p) - toNumber (timestamp x) \<ge> 43200)
          then [Title (date x), Item x] else [Item x])
       (zip (Some p # map Some xs) xs))"
proof (induction xs arbitrary: acc p)
  case Nil
  show ?case by simp
next
  case (Cons x xs)
  show ?case
  proof (cases "toNumber (timestamp p) - toNumber (timestamp x) \<ge> 43200")
    case True
    have "foldl groupStep (acc @ [Item p]) (x # xs)
        = foldl groupStep ((acc @ [Item p, Title (date x)]) @ [Item x]) xs"
      using True by (simp add: groupStep_Item)
    also note Cons.IH [of "acc @ [Item p, Title (date x)]" x]
    finally show ?thesis
      using True by simp
  next
    case False
    have "foldl groupStep (acc @ [Item p]) (x # xs)
        = foldl groupStep ((acc @ [Item p]) @ [Item x]) xs"
      using False by (simp add: groupStep_Item)
    also note Cons.IH [of "acc @ [Item p]" x]
    finally show ?thesis
      using False by simp
  qed
qed

lemma foldl_groupStep_Nil:
  "foldl groupStep [] xs =
     concat (map (\<lambda>(prev, x).
          if (case prev of None \<Rightarrow> True
              | Some p \<Rightarrow> toNumber (timestamp p) - toNumber (timestamp x) \<ge> 43200)
          then [Title (date x), Item x] else [Item x])
       (zip (None # map Some xs) xs))"
proof (cases xs)
  case Nil
  then show ?thesis by simp
next
  case (Cons x xs')
  have "foldl groupStep [] (x # xs') = foldl groupStep ([Title (date x)] @ [Item x]) xs'"
    by (simp add: groupStep_Nil)
  also note foldl_groupStep_Item [of "[Title (date x)]" x xs']
  finally show ?thesis
    by (simp add: Cons)
qed

text \<open>
  Claim C1, amended. For every list of normalized activity items, in the sequence
  produced by the grouper a separator entry immediately precedes the first data item,
  and a separator precedes exactly those later data items whose timestamp is at least
  43200 seconds (half a day, from which on the difference divided by 86400 rounds to 1
  or more) less than the immediately preceding data item's timestamp; each separator
  carries the date string of the data item that follows it. Stated on the sequence
  itself: it is its own data items, in their order, each paired with the data item
  before it (\<open>None\<close> for the first) and preceded by a separator with its date under
  the condition above, and by nothing otherwise. The data items are the input as sorted.
\<close>

theorem groupActivity_separators:
  "groupActivity data =
     concat (map (\<lambda>(prev, x).
          if (case prev of None \<Rightarrow> True
              | Some p \<Rightarrow> toNumber (timestamp p) - toNumber (timestamp x) \<ge> 43200)
          then [Title (date x), Item x] else [Item x])
       (zip (None # map Some (dataItems (groupActivity data)))
            (dataItems (groupActivity data)))) \<and>
   dataItems (groupActivity data) = js_sort byTimestampDesc data"
proof
  show "dataItems (groupActivity data) = js_sort byTimestampDesc data"
    by (rule dataItems_groupActivity)
  show "groupActivity data =
     concat (map (\<lambda>(prev, x).
          if (case prev of None \<Rightarrow> True
              | Some p \<Rightarrow> toNumber (timestamp p) - toNumber (timestamp x) \<ge> 43200)
          then [Title (date x), Item x] else [Item x])
       (zip (None # map Some (dataItems (groupActivity data)))
            (dataItems (groupActivity data))))"
    unfolding dataItems_groupActivity
    by (simp only: groupActivity_def foldl_groupStep_Nil)
qed

text \<open>
  The amended C1 on three items: the items at 86400 and 43201 seconds are 43199
  seconds apart and share a header, the item at 0 is 43201 seconds further and gets
  its own.
\<close>

theorem groupActivity_separators_witness:
  "groupActivity [itemAt 0, itemAt 86400, itemAt 43201] =
     [Title ''Jan 2, 1970'', Item (itemAt 86400), Item (itemAt 43201),
      Title ''Jan 1, 1970'', Item (itemAt 0)]"
proof -
  have s: "js_sort byTimestampDesc [itemAt 0, itemAt 86400, itemAt 43201]
      = [itemAt 86400, itemAt 43201, itemAt 0]"
    by code_simp
  have t: "toNumber (timestamp (itemAt 86400)) = 86400"
    "toNumber (timestamp (itemAt 43201)) = 43201" "toNumber (timestamp (itemAt 0)) = 0"
    by code_simp+
  have d: "date (itemAt 86400) = ''Jan 2, 1970''" "date (itemAt 0) = ''Jan 1, 1970''"
    by code_simp+
  note r = groupActivity_separators [of "[itemAt 0, itemAt 86400, itemAt 43201]"]
  have i: "dataItems (groupActivity [itemAt 0, itemAt 86400, itemAt 43201])
      = [itemAt 86400, itemAt 43201, itemAt 0]"
    using r [THEN conjunct2] by (simp only: s)
  have "groupActivity [itemAt 0, itemAt 86400, itemAt 43201] =
     concat (map (\<lambda>(prev, x).
          if (case prev of None \<Rightarrow> True
              | Some p \<Rightarrow> toNumber (timestamp p) - toNumber (timestamp x) \<ge> 43200)
          then [Title (date x), Item x] else [Item x])
       (zip (None # map Some [itemAt 86400, itemAt 43201, itemAt 0])
            [itemAt 86400, itemAt 43201, itemAt 0]))"
    using r [THEN conjunct1] unfolding i .
  also have "\<dots> = [Title ''Jan 2, 1970'', Item (itemAt 86400), Item (itemAt 43201),
      Title ''Jan 1, 1970'', Item (itemAt 0)]"
    by (simp add: t d)
  finally show ?thesis .
qed

text \<open>
  C1 as stated fails: two items 50000 seconds apart, less than 86400, and the later
  one in the list still has a separator before it.
\<close>

theorem groupActivity_separator_within_a_day:
  "groupActivity [itemAt 50000, itemAt 0] =
     [Title ''Jan 1, 1970'', Item (itemAt 50000), Title ''Jan 1, 1970'', Item (itemAt 0)] \<and>
   toNumber (timestamp (itemAt 50000)) - toNumber (timestamp (itemAt 0)) < 86400"
  by code_simp

section \<open>The search filter\<close>











section \<open>The category selectors and the current activity\<close>

text \<open>
  Claim C5, amended. For every pool of payments and pool of transactions, the Sent
  category contains exactly the payments of the payments pool, all of them and in
  their order, whatever their \<^verbatim>\<open>sending\<close> flag, followed by the transactions that
  are not received, not funding, not closing, and not pending, each decorated with
  date and timestamp by the normalizer, which leaves the other fields as they were.
\<close>

theorem sentActivityRaw_contents:
  "sentActivityRaw localTime payments transactions =
     map (addDate localTime) payments @
     map (addDate localTime)
       (filter (\<lambda>t. \<not> isReceived t \<and> \<not> isFunding t \<and> \<not> isClosing t \<and> \<not> isPending t)
          transactions) \<and>
   map entry.truncate (sentActivityRaw localTime payments transactions) =
     payments @
     filter (\<lambda>t. \<not> isReceived t \<and> \<not> isFunding t \<and> \<not> isClosing t \<and> \<not> isPending t)
       transactions"
  by (simp add: sentActivityRaw_def comp_def truncate_addDate)

text \<open>
  The amended C5 on two payments, one of them in flight, and two transactions, one of
  them received: both payments and the transaction that is not received are in the
  Sent category.
\<close>

theorem sentActivityRaw_contents_witness:
  "sentActivityRaw utcTime [examplePayment, sendingPayment]
       [transactionAt 10, receivedTransaction]
     = [addDate utcTime examplePayment, addDate utcTime sendingPayment,
        addDate utcTime (transactionAt 10)] \<and>
   map entry.truncate
       (sentActivityRaw utcTime [examplePayment, sendingPayment]
          [transactionAt 10, receivedTransaction])
     = [examplePayment, sendingPayment, transactionAt 10]"
proof -
  have f: "filter (\<lambda>t. \<not> isReceived t \<and> \<not> isFunding t \<and> \<not> isClosing t \<and> \<not> isPending t)
       [transactionAt 10, receivedTransaction] = [transactionAt 10]"
    by (simp add: transactionAt_def receivedTransaction_def blankEntry_def)
  note r = sentActivityRaw_contents [of utcTime "[examplePayment, sendingPayment]"
        "[transactionAt 10, receivedTransaction]"]
  from r [unfolded f] show ?thesis
    by (simp add: truncate_addDate)
qed

text \<open>
  C5 as stated fails: a payment in flight that is in the payments pool is in the Sent
  category, where the claim has the payments that are not pending only.
\<close>

theorem sentActivityRaw_takes_sending_payment:
  "sentActivityRaw utcTime [sendingPayment] [] = [addDate utcTime sendingPayment] \<and>
   sending (addDate utcTime sendingPayment) \<and>
   sentOfNonPending utcTime [sendingPayment] [] = []"
  by code_simp

lemma groupActivity_Nil: "groupActivity [] = []"
  by (simp add: groupActivity_def js_sort_def)

text \<open>
  Claim C2. For every search text, filter set, and five normalized category pools
  (sent, received, pending, expired, internal), the current-activity selector returns
  exactly the result of concatenating the pools of the enabled categories (all five
  pools when the filter set is empty), then applying the search filter, then applying
  the grouper, in that order.
\<close>

theorem currentActivity_pipeline:
  "currentActivity toLowerCase text flt sent received pending expired internal =
     groupActivity
       (applySearch toLowerCase
          (concat (map snd (filter (\<lambda>(key, pool). flt = {||} \<or> key |\<in>| flt)
             [(''SENT_ACTIVITY'', sent), (''RECEIVED_ACTIVITY'', received),
              (''PENDING_ACTIVITY'', pending), (''EXPIRED_ACTIVITY'', expired),
              (''INTERNAL_ACTIVITY'', internal)])))
          text)"
  by (simp add: currentActivity_def prepareData_def defaultFilter_def)

text \<open>
  C2 on one payment created at second 100, no search text and the empty filter set:
  a date header and the payment. With the filter set holding the Received key alone
  the Sent pool is left out.
\<close>

theorem currentActivity_pipeline_witness:
  "currentActivity sampleLowerCase None {||}
       (sentActivityRaw utcTime [examplePayment] []) [] [] [] []
     = [Title ''Jan 1, 1970'', Item (addDate utcTime examplePayment)] \<and>
   currentActivity sampleLowerCase None {|''RECEIVED_ACTIVITY''|}
       (sentActivityRaw utcTime [examplePayment] []) [itemAt 0] [] [] []
     = [Title ''Jan 1, 1970'', Item (itemAt 0)]"
proof -
  have g: "groupActivity (sentActivityRaw utcTime [examplePayment] [])
      = [Title ''Jan 1, 1970'', Item (addDate utcTime examplePayment)]"
    "groupActivity [itemAt 0] = [Title ''Jan 1, 1970'', Item (itemAt 0)]"
    by code_simp+
  show ?thesis
    using currentActivity_pipeline [of sampleLowerCase None "{||}"
        "sentActivityRaw utcTime [examplePayment] []" "[]" "[]" "[]" "[]"]
      currentActivity_pipeline [of sampleLowerCase None "{|''RECEIVED_ACTIVITY''|}"
        "sentActivityRaw utcTime [examplePayment] []" "[itemAt 0]" "[]" "[]" "[]"]
    by (simp add: g applySearch_def)
qed

text \<open>
  Claim C10. For every search text and five category pools, if the filter set is
  non-empty but contains none of the five recognized category keys (SENT_ACTIVITY,
  RECEIVED_ACTIVITY, PENDING_ACTIVITY, EXPIRED_ACTIVITY, INTERNAL_ACTIVITY), the
  current-activity selector returns the empty sequence: the set of all categories
  stands in for the literally empty filter set only.
\<close>

theorem currentActivity_unrecognized:
  "flt \<noteq> {||} \<Longrightarrow>
   ''SENT_ACTIVITY'' |\<notin>| flt \<Longrightarrow> ''RECEIVED_ACTIVITY'' |\<notin>| flt \<Longrightarrow>
   ''PENDING_ACTIVITY'' |\<notin>| flt \<Longrightarrow> ''EXPIRED_ACTIVITY'' |\<notin>| flt \<Longrightarrow>
   ''INTERNAL_ACTIVITY'' |\<notin>| flt \<Longrightarrow>
   currentActivity toLowerCase text flt sent received pending expired internal = []"
  by (simp add: currentActivity_def prepareData_def applySearch_def groupActivity_Nil
      split: option.split)

text \<open>C10 on a filter set that holds one unknown key, each pool holding an item.\<close>

theorem currentActivity_unrecognized_witness:
  "{|''OTHER_ACTIVITY''|} \<noteq> {||} \<and>
   currentActivity sampleLowerCase (Some ''a'') {|''OTHER_ACTIVITY''|}
       [itemAt 1] [itemAt 2] [itemAt 3] [itemAt 4] [itemAt 5] = []"
proof -
  have "currentActivity sampleLowerCase (Some ''a'') {|''OTHER_ACTIVITY''|}
       [itemAt 1] [itemAt 2] [itemAt 3] [itemAt 4] [itemAt 5] = []"
    by (rule currentActivity_unrecognized) simp_all
  then show ?thesis
    by simp
qed

section \<open>The filter handlers\<close>

text \<open>
  Claim C6. For every state whose filter set is empty and every list of filter keys,
  applying the add-filter action leaves the filter set empty (a no-op: the state is
  unchanged); for every state whose filter set is non-empty, applying the add-filter
  action adds each key of the list to the filter set, and changes nothing else.
\<close>

theorem ADD_FILTER_effect:
  "(filter_set state = {||} \<longrightarrow>
      filter_set (ADD_FILTER state filterList) = {||} \<and> ADD_FILTER state filterList = state) \<and>
   (filter_set state \<noteq> {||} \<longrightarrow>
      ADD_FILTER state filterList
        = state\<lparr>filter_set := filter_set state |\<union>| fset_of_list filterList\<rparr> \<and>
      (\<forall>k. k |\<in>| filter_set (ADD_FILTER state filterList)
             \<longleftrightarrow> k |\<in>| filter_set state \<or> k \<in> set filterList))"
  by (auto simp add: ADD_FILTER_def fcard_pos_iff fold_finsert fset_of_list.rep_eq)

text \<open>
  C6 on the initial state with its filter set emptied, and on the initial state with a
  filter set of one key.
\<close>

theorem ADD_FILTER_effect_witness:
  "filter_set (initialState\<lparr>filter_set := {||}\<rparr>) = {||} \<and>
   filter_set (ADD_FILTER (initialState\<lparr>filter_set := {||}\<rparr>)
      [''SENT_ACTIVITY'', ''PENDING_ACTIVITY'']) = {||} \<and>
   filter_set (initialState\<lparr>filter_set := {|''SENT_ACTIVITY''|}\<rparr>) \<noteq> {||} \<and>
   filter_set (ADD_FILTER (initialState\<lparr>filter_set := {|''SENT_ACTIVITY''|}\<rparr>)
      [''SENT_ACTIVITY'', ''PENDING_ACTIVITY'']) = {|''SENT_ACTIVITY'', ''PENDING_ACTIVITY''|}"
  using ADD_FILTER_effect [of "initialState\<lparr>filter_set := {||}\<rparr>"
      "[''SENT_ACTIVITY'', ''PENDING_ACTIVITY'']"]
    ADD_FILTER_effect [of "initialState\<lparr>filter_set := {|''SENT_ACTIVITY''|}\<rparr>"
      "[''SENT_ACTIVITY'', ''PENDING_ACTIVITY'']"]
  by auto

lemma toggleKey_twice: "toggleKey k (toggleKey k flt) = flt"
  by (auto simp add: toggleKey_def)

text \<open>
  Claim C7. For every filter set F and every filter key k, applying the toggle-filter
  (change-filter) action with key k twice in succession yields a filter set equal to
  F; the rest of the state is unchanged as well.
\<close>

theorem CHANGE_FILTER_twice:
  "filter_set (CHANGE_FILTER (CHANGE_FILTER state [k]) [k]) = filter_set state \<and>
   CHANGE_FILTER (CHANGE_FILTER state [k]) [k] = state"
  by (simp add: CHANGE_FILTER_def toggleKey_twice)

text \<open>
  C7 on the initial state, for a key that is in the filter set and for one that is not;
  after one toggle the set has changed.
\<close>

theorem CHANGE_FILTER_twice_witness:
  "CHANGE_FILTER (CHANGE_FILTER initialState [''SENT_ACTIVITY'']) [''SENT_ACTIVITY'']
     = initialState \<and>
   CHANGE_FILTER (CHANGE_FILTER initialState [''OTHER_ACTIVITY'']) [''OTHER_ACTIVITY'']
     = initialState \<and>
   filter_set (CHANGE_FILTER initialState [''SENT_ACTIVITY''])
     = {|''RECEIVED_ACTIVITY'', ''PENDING_ACTIVITY'', ''EXPIRED_ACTIVITY'',
         ''INTERNAL_ACTIVITY''|}"
proof -
  have "filter_set (CHANGE_FILTER initialState [''SENT_ACTIVITY''])
     = {|''RECEIVED_ACTIVITY'', ''PENDING_ACTIVITY'', ''EXPIRED_ACTIVITY'',
         ''INTERNAL_ACTIVITY''|}"
    by (auto simp add: CHANGE_FILTER_def toggleKey_def initialState_def defaultFilter_def)
  with CHANGE_FILTER_twice [of initialState "''SENT_ACTIVITY''"]
    CHANGE_FILTER_twice [of initialState "''OTHER_ACTIVITY''"]
  show ?thesis
    by blast
qed

text \<open>Toggling any list of keys twice restores the state as well.\<close>

lemma toggleKey_commute: "toggleKey a (toggleKey b flt) = toggleKey b (toggleKey a flt)"
  by (auto simp add: toggleKey_def)

lemma fold_toggleKey_commute:
  "fold toggleKey ks (toggleKey k flt) = toggleKey k (fold toggleKey ks flt)"
proof (induction ks arbitrary: flt)
  case Nil
  show ?case by simp
next
  case (Cons a ks)
  have "fold toggleKey (a # ks) (toggleKey k flt) = fold toggleKey ks (toggleKey k (toggleKey a flt))"
    by (simp add: toggleKey_commute [of a k])
  also have "\<dots> = toggleKey k (fold toggleKey ks (toggleKey a flt))"
    by (rule Cons.IH)
  finally show ?case
    by simp
qed

lemma fold_toggleKey_twice: "fold toggleKey ks (fold toggleKey ks flt) = flt"
  by (induction ks arbitrary: flt) (simp_all add: fold_toggleKey_commute toggleKey_twice)

lemma CHANGE_FILTER_list_twice: "CHANGE_FILTER (CHANGE_FILTER state ks) ks = state"
  by (simp add: CHANGE_FILTER_def fold_toggleKey_twice)

section \<open>The backup service factory: its dispatch\<close>

text \<open>
  Claim C9. For every provider string: the backup factory returns the Google Drive
  provider for exactly \<^verbatim>\<open>gdrive\<close>, the Dropbox provider for exactly \<^verbatim>\<open>dropbox\<close>, the
  local provider for exactly \<^verbatim>\<open>local\<close>, and for any other value it throws an
  unimplemented-operation error.
\<close>

theorem getBackupService_dispatch:
  "(provider = ''gdrive'' \<longrightarrow>
      getBackupService getGDrive getDropbox getLocal provider = Inr (getGDrive ())) \<and>
   (provider = ''dropbox'' \<longrightarrow>
      getBackupService getGDrive getDropbox getLocal provider = Inr (getDropbox ())) \<and>
   (provider = ''local'' \<longrightarrow>
      getBackupService getGDrive getDropbox getLocal provider = Inr (getLocal ())) \<and>
   (provider \<noteq> ''gdrive'' \<and> provider \<noteq> ''dropbox'' \<and> provider \<noteq> ''local'' \<longrightarrow>
      getBackupService getGDrive getDropbox getLocal provider = Inl (Error ''not implemented''))"
  by (simp add: getBackupService_def GOOGLE_DRIVE_def DROPBOX_def LOCAL_def)

text \<open>
  C9 on the three provider names and on \<^verbatim>\<open>unknown\<close>, with three providers that differ:
  a name with another case, \<^verbatim>\<open>GDrive\<close>, is not a match.
\<close>

theorem getBackupService_dispatch_witness:
  "getBackupService (\<lambda>_. ''Drive'') (\<lambda>_. ''Dropbox'') (\<lambda>_. ''Local'') ''gdrive'' = Inr ''Drive'' \<and>
   getBackupService (\<lambda>_. ''Drive'') (\<lambda>_. ''Dropbox'') (\<lambda>_. ''Local'') ''dropbox'' = Inr ''Dropbox'' \<and>
   getBackupService (\<lambda>_. ''Drive'') (\<lambda>_. ''Dropbox'') (\<lambda>_. ''Local'') ''local'' = Inr ''Local'' \<and>
   getBackupService (\<lambda>_. ''Drive'') (\<lambda>_. ''Dropbox'') (\<lambda>_. ''Local'') ''unknown''
     = Inl (Error ''not implemented'') \<and>
   getBackupService (\<lambda>_. ''Drive'') (\<lambda>_. ''Dropbox'') (\<lambda>_. ''Local'') ''GDrive''
     = Inl (Error ''not implemented'')"
  using getBackupService_dispatch [of "''gdrive''" "\<lambda>_. ''Drive''" "\<lambda>_. ''Dropbox''" "\<lambda>_. ''Local''"]
    getBackupService_dispatch [of "''dropbox''" "\<lambda>_. ''Drive''" "\<lambda>_. ''Dropbox''" "\<lambda>_. ''Local''"]
    getBackupService_dispatch [of "''local''" "\<lambda>_. ''Drive''" "\<lambda>_. ''Dropbox''" "\<lambda>_. ''Local''"]
    getBackupService_dispatch [of "''unknown''" "\<lambda>_. ''Drive''" "\<lambda>_. ''Dropbox''" "\<lambda>_. ''Local''"]
    getBackupService_dispatch [of "''GDrive''" "\<lambda>_. ''Drive''" "\<lambda>_. ''Dropbox''" "\<lambda>_. ''Local''"]
  by simp

end
